theory Spec2Isabelle
  imports Complex_Main
begin

section \<open>The backend tables and the session\<close>

text \<open>
  The client talks to three tables of a managed store and to its session service.
  Rows are records; the field prefixes name the table (\<open>p_\<close> profiles, \<open>r_\<close> rooms,
  \<open>q_\<close> requests), since the tables share column names. Identifiers are the strings
  the client receives; a row's \<open>rent\<close> is a number.
\<close>

type_synonym uuid = string
type_synonym number = real

datatype user = User (uid: uuid)

datatype js_error = Error (message: string)

record profile =
  p_id :: uuid
  p_user_id :: uuid
  p_role :: string
  p_name :: string
  p_email :: string
  p_phone :: string

record room =
  r_id :: uuid
  r_owner_id :: uuid
  r_address_line :: string
  r_city :: string
  r_district :: string
  r_taluka :: string
  r_state :: string
  r_pincode :: string
  r_landmark :: string
  r_rent :: number
  r_room_type :: string
  r_features :: "(string \<times> bool) list"
  r_is_active :: bool
  r_images :: "string list"

record request =
  q_id :: uuid
  q_room_id :: uuid
  q_tenant_id :: uuid
  q_owner_id :: uuid
  q_message :: string
  q_status :: string
  q_created_at :: string

datatype table = Profiles | Rooms | Requests

text \<open>
  \<open>session\<close> is what \<open>supabase.auth.getUser()\<close> yields (\<open>None\<close> for \<open>user = null\<close>).
  \<open>fault t\<close> is the error the store reports for the call a handler makes on table \<open>t\<close>
  (\<open>None\<close> when the call goes through). The store executes each query as it is issued:
  the sources hold no store-side rule, so none is modelled.
\<close>

record backend =
  session :: "user option"
  profiles :: "profile list"
  rooms :: "room list"
  requests :: "request list"
  fault :: "table \<Rightarrow> js_error option"

subsection \<open>Query results\<close>

text \<open>\<open>.single()\<close>: the one row of the result, an error for no row or several.\<close>

definition single_error :: js_error where
  "single_error = Error ''JSON object requested, multiple (or no) rows returned''"

fun single :: "'a list \<Rightarrow> js_error + 'a" where
  "single [x] = Inr x"
| "single xs = Inl single_error"

text \<open>The reply \<open>{ data, error }\<close> of a read on table \<open>t\<close> that ends in \<open>.single()\<close>.\<close>

definition select_single :: "backend \<Rightarrow> table \<Rightarrow> 'a list \<Rightarrow> js_error + 'a" where
  "select_single w t xs = (case fault w t of Some e \<Rightarrow> Inl e | None \<Rightarrow> single xs)"

text \<open>Embedded rows of a foreign key: the referenced row's chosen columns, or null.\<close>

record contact =
  c_name :: string
  c_email :: string
  c_phone :: string

record room_summary =
  s_address_line :: string
  s_city :: string
  s_rent :: number

definition contact_of :: "profile \<Rightarrow> contact" where
  "contact_of p = \<lparr>c_name = p_name p, c_email = p_email p, c_phone = p_phone p\<rparr>"

definition summary_of :: "room \<Rightarrow> room_summary" where
  "summary_of r = \<lparr>s_address_line = r_address_line r, s_city = r_city r, s_rent = r_rent r\<rparr>"

definition embed_profile :: "backend \<Rightarrow> uuid \<Rightarrow> contact option" where
  "embed_profile w pid = map_option contact_of (find (\<lambda>p. p_id p = pid) (profiles w))"

definition embed_room :: "backend \<Rightarrow> uuid \<Rightarrow> room_summary option" where
  "embed_room w rid = map_option summary_of (find (\<lambda>r. r_id r = rid) (rooms w))"

subsection \<open>What a handler shows and triggers\<close>

datatype variant = Default | Destructive

datatype effect =
  Toast string string variant
| Navigate string
| Call_fetchOwnerData
| Call_onSuccess

section \<open>RoomDetails.tsx\<close>

text \<open>The fetched room: the row (\<open>*\<close>) and the embedded owner contact.\<close>

record room_details =
  rd_row :: room
  rd_owner :: "contact option"

record room_page =
  rp_room :: "room_details option"
  rp_message :: string
  rp_loading :: bool

definition room_page_init :: room_page where
  "room_page_init = \<lparr>rp_room = None, rp_message = [], rp_loading = False\<rparr>"

definition fetchRoomDetails :: "backend \<Rightarrow> uuid \<Rightarrow> room_page \<Rightarrow> room_page \<times> effect list" where
  "fetchRoomDetails w roomId st =
     (case select_single w Rooms (filter (\<lambda>r. r_id r = roomId) (rooms w)) of
        Inl e \<Rightarrow>
          (st, [Toast ''Error'' ''Failed to fetch room details'' Destructive, Navigate ''/tenant''])
      | Inr r \<Rightarrow>
          (st\<lparr>rp_room := Some \<lparr>rd_row = r, rd_owner = embed_profile w (r_owner_id r)\<rparr>\<rparr>, []))"

text \<open>
  The body of the \<open>try\<close> block of \<open>handleSendRequest\<close>: a thrown error is \<open>Inl\<close>.
  The error of the profile query is not read, only its data. \<open>dflt\<close> carries the columns
  the client does not send and the store fills in (\<open>id\<close>, \<open>created_at\<close>).
\<close>

definition sendRequest_try :: "request \<Rightarrow> backend \<Rightarrow> room_details \<Rightarrow> string \<Rightarrow> js_error + backend" where
  "sendRequest_try dflt w room msg =
     (case session w of
        None \<Rightarrow> Inl (Error ''Not authenticated'')
      | Some user \<Rightarrow>
          (case select_single w Profiles
                  (map p_id (filter (\<lambda>p. p_user_id p = uid user) (profiles w))) of
             Inl e \<Rightarrow> Inl (Error ''Profile not found'')
           | Inr profile_id \<Rightarrow>
               (case fault w Requests of
                  Some e \<Rightarrow> Inl e
                | None \<Rightarrow>
                    Inr (w\<lparr>requests := requests w @
                      [dflt\<lparr>q_room_id := r_id (rd_row room),
                            q_tenant_id := profile_id,
                            q_owner_id := r_owner_id (rd_row room),
                            q_message := (if msg = [] then ''I'm interested in this room'' else msg),
                            q_status := ''pending''\<rparr>]\<rparr>))))"

definition handleSendRequest :: "request \<Rightarrow> backend \<Rightarrow> room_page \<Rightarrow> backend \<times> room_page \<times> effect list" where
  "handleSendRequest dflt w st =
     (case rp_room st of
        None \<Rightarrow> (w, st, [])
      | Some room \<Rightarrow>
          (case sendRequest_try dflt w room (rp_message st) of
             Inl e \<Rightarrow> (w, st\<lparr>rp_loading := False\<rparr>, [Toast ''Error'' (message e) Destructive])
           | Inr w' \<Rightarrow>
               (w', st\<lparr>rp_message := [], rp_loading := False\<rparr>,
                [Toast ''Success'' ''Request sent successfully!'' Default])))"

text \<open>
  The page shows \<open>Loading...\<close> until the room is there; the Send Request button is part
  of the page proper.
\<close>

definition send_button_rendered :: "room_page \<Rightarrow> bool" where
  "send_button_rendered st = (rp_room st \<noteq> None)"

section \<open>OwnerDashboard.tsx\<close>

text \<open>A fetched request: the row (\<open>*\<close>) with the embedded tenant and room.\<close>

record request_view =
  rv_row :: request
  rv_tenant :: "contact option"
  rv_room :: "room_summary option"

record owner_dashboard =
  od_rooms :: "room list"
  od_requests :: "request_view list"
  od_showAddRoom :: bool

definition owner_dashboard_init :: owner_dashboard where
  "owner_dashboard_init = \<lparr>od_rooms = [], od_requests = [], od_showAddRoom = False\<rparr>"

definition join_request :: "backend \<Rightarrow> request \<Rightarrow> request_view" where
  "join_request w q =
     \<lparr>rv_row = q, rv_tenant = embed_profile w (q_tenant_id q), rv_room = embed_room w (q_room_id q)\<rparr>"

definition fetch_failed :: "effect list" where
  "fetch_failed = [Toast ''Error'' ''Failed to fetch data'' Destructive]"

definition fetchOwnerData :: "backend \<Rightarrow> owner_dashboard \<Rightarrow> owner_dashboard \<times> effect list" where
  "fetchOwnerData w st =
     (case session w of
        None \<Rightarrow> (st, fetch_failed)
      | Some user \<Rightarrow>
          (case select_single w Profiles
                  (map p_id (filter (\<lambda>p. p_user_id p = uid user) (profiles w))) of
             Inl e \<Rightarrow> (st, fetch_failed)
           | Inr profile_id \<Rightarrow>
               (case fault w Rooms of
                  Some e \<Rightarrow> (st, fetch_failed)
                | None \<Rightarrow>
                    (let st1 = st\<lparr>od_rooms := filter (\<lambda>r. r_owner_id r = profile_id) (rooms w)\<rparr>
                     in case fault w Requests of
                          Some e \<Rightarrow> (st1, fetch_failed)
                        | None \<Rightarrow>
                            (st1\<lparr>od_requests := map (join_request w)
                                   (filter (\<lambda>q. q_owner_id q = profile_id) (requests w))\<rparr>, [])))))"

datatype decision = accepted | rejected

fun status_of :: "decision \<Rightarrow> string" where
  "status_of accepted = ''accepted''"
| "status_of rejected = ''rejected''"

definition handleRequestAction :: "backend \<Rightarrow> uuid \<Rightarrow> decision \<Rightarrow> backend \<times> effect list" where
  "handleRequestAction w requestId status =
     (case fault w Requests of
        Some e \<Rightarrow> (w, [Toast ''Error'' ''Failed to update request'' Destructive])
      | None \<Rightarrow>
          (w\<lparr>requests := map (\<lambda>q. if q_id q = requestId then q\<lparr>q_status := status_of status\<rparr> else q)
                            (requests w)\<rparr>,
           [Toast ''Success'' (''Request '' @ status_of status @ '' successfully'') Default,
            Call_fetchOwnerData]))"

text \<open>
  One card of the Tenant Requests list: the texts that carry data and the buttons with
  the call each one makes. \<open>request.tenant?.name\<close> and the like are \<open>None\<close> where the
  embedded row is null.
\<close>

record request_card =
  card_name :: "string option"
  card_status :: string
  card_address :: "(string \<times> string) option"
  card_rent :: "number option"
  card_contact :: "(string option \<times> string option) option"
  card_buttons :: "(uuid \<times> decision) list"

definition render_request :: "request_view \<Rightarrow> request_card" where
  "render_request v =
     \<lparr>card_name = map_option c_name (rv_tenant v),
      card_status = q_status (rv_row v),
      card_address = map_option (\<lambda>s. (s_address_line s, s_city s)) (rv_room v),
      card_rent = map_option s_rent (rv_room v),
      card_contact =
        (if q_status (rv_row v) = ''accepted''
         then Some (map_option c_email (rv_tenant v), map_option c_phone (rv_tenant v))
         else None),
      card_buttons =
        (if q_status (rv_row v) = ''pending''
         then [(q_id (rv_row v), accepted), (q_id (rv_row v), rejected)]
         else [])\<rparr>"

definition render_requests :: "owner_dashboard \<Rightarrow> request_card list" where
  "render_requests st = map render_request (od_requests st)"

section \<open>TenantDashboard.tsx\<close>

text \<open>
  The room list and the query that fills it when the dashboard mounts. The search form
  and its query are not part of this development.
\<close>

record tenant_dashboard =
  td_rooms :: "room list"

definition fetchRooms :: "backend \<Rightarrow> tenant_dashboard \<Rightarrow> tenant_dashboard \<times> effect list" where
  "fetchRooms w st =
     (case fault w Rooms of
        Some e \<Rightarrow> (st, [Toast ''Error'' ''Failed to fetch rooms'' Destructive])
      | None \<Rightarrow> (st\<lparr>td_rooms := filter (\<lambda>r. r_is_active r = True) (rooms w)\<rparr>, []))"

section \<open>AddRoomForm.tsx\<close>

record form_data =
  fd_address_line :: string
  fd_city :: string
  fd_district :: string
  fd_taluka :: string
  fd_state :: string
  fd_pincode :: string
  fd_landmark :: string
  fd_rent :: string
  fd_room_type :: string

record add_room_form =
  arf_formData :: form_data
  arf_features :: "(string \<times> bool) list"
  arf_loading :: bool

definition add_room_form_init :: add_room_form where
  "add_room_form_init =
     \<lparr>arf_formData = \<lparr>fd_address_line = [], fd_city = [], fd_district = [], fd_taluka = [],
                       fd_state = [], fd_pincode = [], fd_landmark = [], fd_rent = [],
                       fd_room_type = []\<rparr>,
      arf_features = [(''wifi'', False), (''electricity'', False), (''water'', False),
                      (''parking'', False), (''furnished'', False), (''security'', False)],
      arf_loading = False\<rparr>"

text \<open>
  The \<open>try\<close> block of \<open>handleSubmit\<close>. \<open>parseFloat\<close> is the language's own function,
  taken as a parameter; \<open>dflt\<close> carries the columns the store fills in (\<open>id\<close>, \<open>images\<close>).
\<close>

definition submit_try :: "(string \<Rightarrow> number) \<Rightarrow> room \<Rightarrow> backend \<Rightarrow> add_room_form \<Rightarrow> js_error + backend" where
  "submit_try parseFloat dflt w st =
     (case session w of
        None \<Rightarrow> Inl (Error ''Not authenticated'')
      | Some user \<Rightarrow>
          (case select_single w Profiles
                  (map p_id (filter (\<lambda>p. p_user_id p = uid user) (profiles w))) of
             Inl e \<Rightarrow> Inl (Error ''Profile not found'')
           | Inr profile_id \<Rightarrow>
               (case fault w Rooms of
                  Some e \<Rightarrow> Inl e
                | None \<Rightarrow>
                    Inr (w\<lparr>rooms := rooms w @
                      [dflt\<lparr>r_owner_id := profile_id,
                            r_address_line := fd_address_line (arf_formData st),
                            r_city := fd_city (arf_formData st),
                            r_district := fd_district (arf_formData st),
                            r_taluka := fd_taluka (arf_formData st),
                            r_state := fd_state (arf_formData st),
                            r_pincode := fd_pincode (arf_formData st),
                            r_landmark := fd_landmark (arf_formData st),
                            r_rent := parseFloat (fd_rent (arf_formData st)),
                            r_room_type := fd_room_type (arf_formData st),
                            r_features := arf_features st,
                            r_is_active := True\<rparr>]\<rparr>))))"

definition handleSubmit :: "(string \<Rightarrow> number) \<Rightarrow> room \<Rightarrow> backend \<Rightarrow> add_room_form \<Rightarrow> backend \<times> add_room_form \<times> effect list" where
  "handleSubmit parseFloat dflt w st =
     (case submit_try parseFloat dflt w st of
        Inl e \<Rightarrow> (w, st\<lparr>arf_loading := False\<rparr>, [Toast ''Error'' (message e) Destructive])
      | Inr w' \<Rightarrow>
          (w', st\<lparr>arf_loading := False\<rparr>,
           [Toast ''Success'' ''Room added successfully!'' Default, Call_onSuccess]))"

section \<open>Sample data\<close>

definition ex_tenant :: profile where
  "ex_tenant = \<lparr>p_id = ''p-tenant'', p_user_id = ''u-tenant'', p_role = ''tenant'',
                 p_name = ''Tara'', p_email = ''tara@example.org'', p_phone = ''555-0101''\<rparr>"

definition ex_owner :: profile where
  "ex_owner = \<lparr>p_id = ''p-owner'', p_user_id = ''u-owner'', p_role = ''owner'',
                p_name = ''Omar'', p_email = ''omar@example.org'', p_phone = ''555-0102''\<rparr>"

definition ex_other :: profile where
  "ex_other = \<lparr>p_id = ''p-other'', p_user_id = ''u-other'', p_role = ''owner'',
                p_name = ''Olga'', p_email = ''olga@example.org'', p_phone = ''555-0103''\<rparr>"

definition ex_room :: "bool \<Rightarrow> room" where
  "ex_room active =
     \<lparr>r_id = ''room-1'', r_owner_id = ''p-owner'', r_address_line = ''12 Lake Road'',
      r_city = ''Pune'', r_district = ''Pune'', r_taluka = ''Haveli'', r_state = ''MH'',
      r_pincode = ''411001'', r_landmark = ''Station'', r_rent = 9000, r_room_type = ''student'',
      r_features = [(''wifi'', True)], r_is_active = active, r_images = []\<rparr>"

definition ex_request :: "string \<Rightarrow> request" where
  "ex_request s =
     \<lparr>q_id = ''req-1'', q_room_id = ''room-1'', q_tenant_id = ''p-tenant'',
      q_owner_id = ''p-owner'', q_message = ''hello'', q_status = s,
      q_created_at = ''2025-01-01''\<rparr>"

definition ex_backend :: "string \<Rightarrow> room list \<Rightarrow> request list \<Rightarrow> backend" where
  "ex_backend u rs qs =
     \<lparr>session = Some (User u), profiles = [ex_tenant, ex_owner, ex_other], rooms = rs,
      requests = qs, fault = (\<lambda>t. None)\<rparr>"

definition ex_signed_out :: backend where
  "ex_signed_out =
     \<lparr>session = None, profiles = [ex_tenant, ex_owner, ex_other], rooms = [ex_room True],
      requests = [], fault = (\<lambda>t. None)\<rparr>"

definition ex_request_defaults :: request where
  "ex_request_defaults =
     \<lparr>q_id = ''req-1'', q_room_id = [], q_tenant_id = [], q_owner_id = [], q_message = [],
      q_status = [], q_created_at = ''2025-01-01''\<rparr>"

definition ex_room_defaults :: room where
  "ex_room_defaults =
     \<lparr>r_id = ''room-2'', r_owner_id = [], r_address_line = [], r_city = [], r_district = [],
      r_taluka = [], r_state = [], r_pincode = [], r_landmark = [], r_rent = 0,
      r_room_type = [], r_features = [], r_is_active = False, r_images = []\<rparr>"

definition ex_room_page :: "bool \<Rightarrow> string \<Rightarrow> room_page" where
  "ex_room_page active msg =
     \<lparr>rp_room = Some \<lparr>rd_row = ex_room active, rd_owner = Some (contact_of ex_owner)\<rparr>,
      rp_message = msg, rp_loading = False\<rparr>"

definition ex_request2 :: "string \<Rightarrow> request" where
  "ex_request2 s =
     \<lparr>q_id = ''req-2'', q_room_id = ''room-1'', q_tenant_id = ''p-tenant'',
      q_owner_id = ''p-owner'', q_message = ''second'', q_status = s,
      q_created_at = ''2025-01-02''\<rparr>"



section \<open>Auxiliary facts\<close>

lemmas ex_defs = ex_backend_def ex_tenant_def ex_owner_def ex_other_def ex_room_def
  ex_request_def ex_signed_out_def ex_request_defaults_def ex_room_defaults_def ex_room_page_def

lemma single_Inr: "single xs = Inr x \<longleftrightarrow> xs = [x]"
  by (cases xs rule: single.cases) (auto simp: single_error_def)

lemma fetchOwnerData_ok:
  assumes "fetchOwnerData w st = (st', [])"
  shows "\<exists>u pid. session w = Some u \<and> fault w Profiles = None \<and> fault w Rooms = None
           \<and> fault w Requests = None
           \<and> map p_id (filter (\<lambda>p. p_user_id p = uid u) (profiles w)) = [pid]
           \<and> od_requests st' = map (join_request w) (filter (\<lambda>q. q_owner_id q = pid) (requests w))
           \<and> od_rooms st' = filter (\<lambda>r. r_owner_id r = pid) (rooms w)"
  using assms
  by (auto simp: fetchOwnerData_def select_single_def fetch_failed_def Let_def single_Inr
           split: option.splits sum.splits)

lemma button_is_pending:
  assumes "(rid, d) \<in> set (concat (map card_buttons (render_requests st)))"
  shows "\<exists>v \<in> set (od_requests st). q_id (rv_row v) = rid \<and> q_status (rv_row v) = ''pending''"
  using assms
  by (auto simp: render_requests_def render_request_def split: if_splits)

lemma find_distinct_key:
  assumes "distinct (map f xs)" "x \<in> set xs"
  shows "find (\<lambda>y. f y = f x) xs = Some x"
  using assms
proof (induction xs)
  case Nil
  then show ?case by simp
next
  case (Cons a xs)
  then show ?case by (cases "a = x") (auto simp: image_iff)
qed

lemma map_filter_singleton:
  assumes "map f (filter P xs) = [y]"
  shows "\<exists>x \<in> set xs. P x \<and> f x = y"
proof -
  have "y \<in> set (map f (filter P xs))"
    using assms by simp
  then show ?thesis by auto
qed

lemma handleRequestAction_session:
  "handleRequestAction (w\<lparr>session := s\<rparr>) rid d
     = (fst (handleRequestAction w rid d)\<lparr>session := s\<rparr>, snd (handleRequestAction w rid d))"
  by (simp add: handleRequestAction_def split: option.splits)

lemma fetchRoomDetails_ok:
  assumes "fetchRoomDetails w roomId st0 = (st, [])"
  shows "\<exists>r. fault w Rooms = None \<and> filter (\<lambda>r. r_id r = roomId) (rooms w) = [r] \<and>
             rp_room st = Some \<lparr>rd_row = r, rd_owner = embed_profile w (r_owner_id r)\<rparr>"
  using assms
  by (auto simp: fetchRoomDetails_def select_single_def single_Inr split: option.splits sum.splits)

lemma sendRequest_try_ok:
  assumes "session w = Some u"
    and "map p_id (filter (\<lambda>p. p_user_id p = uid u) (profiles w)) = [pid]"
    and "fault w Profiles = None" "fault w Requests = None"
  shows "sendRequest_try dflt w rd msg =
           Inr (w\<lparr>requests := requests w @
             [dflt\<lparr>q_room_id := r_id (rd_row rd), q_tenant_id := pid,
                   q_owner_id := r_owner_id (rd_row rd),
                   q_message := (if msg = [] then ''I'm interested in this room'' else msg),
                   q_status := ''pending''\<rparr>]\<rparr>)"
  using assms by (simp add: sendRequest_try_def select_single_def)

lemma sendRequest_try_Inr:
  assumes "sendRequest_try dflt w rd msg = Inr w'"
  shows "\<exists>pid. w' = w\<lparr>requests := requests w @
             [dflt\<lparr>q_room_id := r_id (rd_row rd), q_tenant_id := pid,
                   q_owner_id := r_owner_id (rd_row rd),
                   q_message := (if msg = [] then ''I'm interested in this room'' else msg),
                   q_status := ''pending''\<rparr>]\<rparr>"
  using assms
  by (auto simp: sendRequest_try_def select_single_def split: option.splits sum.splits)

lemma handleSendRequest_success:
  assumes "handleSendRequest dflt w st = (w', st', [Toast ''Success'' ''Request sent successfully!'' Default])"
  shows "\<exists>rd. rp_room st = Some rd \<and> sendRequest_try dflt w rd (rp_message st) = Inr w'"
  using assms
  by (auto simp: handleSendRequest_def split: option.splits sum.splits)



lemma handleRequestAction_done:
  "fault w Requests = None \<Longrightarrow>
     handleRequestAction w rid d
       = (w\<lparr>requests := map (\<lambda>q. if q_id q = rid then q\<lparr>q_status := status_of d\<rparr> else q)
                              (requests w)\<rparr>,
          [Toast ''Success'' (''Request '' @ status_of d @ '' successfully'') Default,
           Call_fetchOwnerData])"
  by (simp add: handleRequestAction_def)



section \<open>Deciding a request\<close>




text \<open>
  C3, as the specification states it: a decision by a profile other than the request's
  owner is refused with Forbidden and changes nothing. \<open>handleRequestAction\<close> does not
  read the session: signed in as another owner, the call updates the request and reports
  success.
\<close>

theorem decide_by_other_profile_counterexample:
  "handleRequestAction (ex_backend ''u-other'' [ex_room True] [ex_request ''pending'']) ''req-1'' accepted
     = (ex_backend ''u-other'' [ex_room True] [ex_request ''accepted''],
        [Toast ''Success'' ''Request accepted successfully'' Default, Call_fetchOwnerData])
   \<and> q_owner_id (ex_request ''pending'') = ''p-owner''
   \<and> session (ex_backend ''u-other'' [ex_room True] [ex_request ''pending'']) = Some (User ''u-other'')
   \<and> map p_user_id (profiles (ex_backend ''u-other'' [ex_room True] [ex_request ''pending'']))
       = [''u-tenant'', ''u-owner'', ''u-other'']
   \<and> map p_id (profiles (ex_backend ''u-other'' [ex_room True] [ex_request ''pending'']))
       = [''p-tenant'', ''p-owner'', ''p-other'']"
  by (simp add: handleRequestAction_def ex_defs)

text \<open>
  C3, amended. Ownership scopes the list, not the update. Every accept or reject button
  of a list that \<open>fetchOwnerData\<close> has fetched belongs to a request whose \<open>owner_id\<close> is
  the id of the signed-in user's profile. \<open>handleRequestAction\<close> itself does the same
  whoever is signed in: on any backend whose store reports no error for the update, under
  any session, it sets the status of the rows with that id, leaves the others as they
  are and reports success.
\<close>

theorem decide_scoped_by_listing:
  assumes fetched: "fetchOwnerData w0 st = (st', [])"
    and offered: "(rid, d) \<in> set (concat (map card_buttons (render_requests st')))"
  shows "(\<exists>u p q. session w0 = Some u \<and> p \<in> set (profiles w0) \<and> p_user_id p = uid u \<and>
            q \<in> set (requests w0) \<and> q_id q = rid \<and> q_owner_id q = p_id p) \<and>
         (\<forall>w s. handleRequestAction (w\<lparr>session := s\<rparr>) rid d
            = (fst (handleRequestAction w rid d)\<lparr>session := s\<rparr>,
               snd (handleRequestAction w rid d))) \<and>
         (\<forall>w. fault w Requests = None \<longrightarrow>
            snd (handleRequestAction w rid d)
              = [Toast ''Success'' (''Request '' @ status_of d @ '' successfully'') Default,
                 Call_fetchOwnerData] \<and>
            length (requests (fst (handleRequestAction w rid d))) = length (requests w) \<and>
            (\<forall>i < length (requests w).
               requests (fst (handleRequestAction w rid d)) ! i
                 = (if q_id (requests w ! i) = rid
                    then (requests w ! i)\<lparr>q_status := status_of d\<rparr>
                    else requests w ! i)))"
proof -
  from fetchOwnerData_ok[OF fetched] obtain u pid where
    u: "session w0 = Some u" and
    pr: "map p_id (filter (\<lambda>p. p_user_id p = uid u) (profiles w0)) = [pid]" and
    rq: "od_requests st' = map (join_request w0) (filter (\<lambda>q. q_owner_id q = pid) (requests w0))"
    by auto
  from map_filter_singleton[OF pr] obtain p where
    p: "p \<in> set (profiles w0)" "p_user_id p = uid u" "p_id p = pid"
    by auto
  from button_is_pending[OF offered] obtain v where
    v: "v \<in> set (od_requests st')" "q_id (rv_row v) = rid"
    by blast
  from v(1) rq obtain q where q: "q \<in> set (requests w0)" "q_owner_id q = pid" "v = join_request w0 q"
    by auto
  have "q_id q = rid"
    using v(2) q(3) by (simp add: join_request_def)
  with u p q have scoped: "\<exists>u p q. session w0 = Some u \<and> p \<in> set (profiles w0) \<and>
      p_user_id p = uid u \<and> q \<in> set (requests w0) \<and> q_id q = rid \<and> q_owner_id q = p_id p"
    by blast
  have anyone: "\<forall>w s. handleRequestAction (w\<lparr>session := s\<rparr>) rid d
            = (fst (handleRequestAction w rid d)\<lparr>session := s\<rparr>,
               snd (handleRequestAction w rid d))"
    by (simp add: handleRequestAction_session)
  have updates: "\<forall>w. fault w Requests = None \<longrightarrow>
            snd (handleRequestAction w rid d)
              = [Toast ''Success'' (''Request '' @ status_of d @ '' successfully'') Default,
                 Call_fetchOwnerData] \<and>
            length (requests (fst (handleRequestAction w rid d))) = length (requests w) \<and>
            (\<forall>i < length (requests w).
               requests (fst (handleRequestAction w rid d)) ! i
                 = (if q_id (requests w ! i) = rid
                    then (requests w ! i)\<lparr>q_status := status_of d\<rparr>
                    else requests w ! i))"
    by (simp add: handleRequestAction_done)
  from scoped anyone updates show ?thesis
    by (intro conjI)
qed

theorem decide_scoped_by_listing_witness:
  "fetchOwnerData (ex_backend ''u-owner'' [ex_room True] [ex_request ''pending'']) owner_dashboard_init
     = (fst (fetchOwnerData (ex_backend ''u-owner'' [ex_room True] [ex_request ''pending'']) owner_dashboard_init), []) \<and>
   (''req-1'', rejected) \<in> set (concat (map card_buttons (render_requests
      (fst (fetchOwnerData (ex_backend ''u-owner'' [ex_room True] [ex_request ''pending'']) owner_dashboard_init))))) \<and>
   fault (ex_backend ''u-other'' [ex_room True] [ex_request2 ''accepted'', ex_request ''pending'']) Requests = None \<and>
   snd (handleRequestAction (ex_backend ''u-other'' [ex_room True]
          [ex_request2 ''accepted'', ex_request ''pending'']) ''req-1'' rejected)
     = [Toast ''Success'' ''Request rejected successfully'' Default, Call_fetchOwnerData] \<and>
   requests (fst (handleRequestAction (ex_backend ''u-other'' [ex_room True]
          [ex_request2 ''accepted'', ex_request ''pending'']) ''req-1'' rejected)) ! 0
     = ex_request2 ''accepted'' \<and>
   requests (fst (handleRequestAction (ex_backend ''u-other'' [ex_room True]
          [ex_request2 ''accepted'', ex_request ''pending'']) ''req-1'' rejected)) ! 1
     = ex_request ''rejected'' \<and>
   handleRequestAction ((ex_backend ''u-owner'' [ex_room True] [ex_request ''pending''])\<lparr>session := None\<rparr>) ''req-1'' rejected
     = (fst (handleRequestAction (ex_backend ''u-owner'' [ex_room True] [ex_request ''pending'']) ''req-1'' rejected)
          \<lparr>session := None\<rparr>,
        snd (handleRequestAction (ex_backend ''u-owner'' [ex_room True] [ex_request ''pending'']) ''req-1'' rejected))"
proof -
  let ?w = "ex_backend ''u-owner'' [ex_room True] [ex_request ''pending'']"
  let ?o = "ex_backend ''u-other'' [ex_room True] [ex_request2 ''accepted'', ex_request ''pending'']"
  let ?st = "fst (fetchOwnerData ?w owner_dashboard_init)"
  have h1: "fetchOwnerData ?w owner_dashboard_init = (?st, [])"
    by (simp add: fetchOwnerData_def select_single_def ex_defs)
  have h2: "(''req-1'', rejected) \<in> set (concat (map card_buttons (render_requests ?st)))"
    by (simp add: fetchOwnerData_def select_single_def ex_defs render_requests_def
        render_request_def join_request_def embed_profile_def embed_room_def)
  have up: "fault ?o Requests = None"
    by (simp add: ex_backend_def)
  have len: "(0::nat) < length (requests ?o)" "(1::nat) < length (requests ?o)"
    by (simp_all add: ex_backend_def)
  have r0: "requests ?o ! 0 = ex_request2 ''accepted''" and r1: "requests ?o ! 1 = ex_request ''pending''"
    by (simp_all add: ex_backend_def)
  note t = decide_scoped_by_listing[OF h1 h2]
  from t have anyone: "handleRequestAction (?w\<lparr>session := None\<rparr>) ''req-1'' rejected
     = (fst (handleRequestAction ?w ''req-1'' rejected)\<lparr>session := None\<rparr>,
        snd (handleRequestAction ?w ''req-1'' rejected))"
    by blast
  from t up have
    fx: "snd (handleRequestAction ?o ''req-1'' rejected)
           = [Toast ''Success'' (''Request '' @ status_of rejected @ '' successfully'') Default,
              Call_fetchOwnerData]" and
    rows: "\<forall>i < length (requests ?o).
               requests (fst (handleRequestAction ?o ''req-1'' rejected)) ! i
                 = (if q_id (requests ?o ! i) = ''req-1''
                    then (requests ?o ! i)\<lparr>q_status := status_of rejected\<rparr>
                    else requests ?o ! i)"
    by blast+
  have a0: "requests (fst (handleRequestAction ?o ''req-1'' rejected)) ! 0 = ex_request2 ''accepted''"
    using rows len(1) r0 by (simp add: ex_request2_def)
  have a1: "requests (fst (handleRequestAction ?o ''req-1'' rejected)) ! 1 = ex_request ''rejected''"
    using rows len(2) r1 by (simp add: ex_request_def)
  have fx': "snd (handleRequestAction ?o ''req-1'' rejected)
     = [Toast ''Success'' ''Request rejected successfully'' Default, Call_fetchOwnerData]"
    using fx by simp
  from h1 h2 up fx' a0 a1 anyone show ?thesis
    by (intro conjI)
qed

section \<open>The owner's request feed\<close>

text \<open>
  C2, as the specification states it: the data that \<open>fetchOwnerData\<close> returns holds no
  tenant email or phone for a pending or rejected request. The query embeds name, email
  and phone for every request, whatever its status.
\<close>

theorem owner_feed_pending_contact_counterexample:
  "od_requests (fst (fetchOwnerData (ex_backend ''u-owner'' [ex_room True] [ex_request ''pending''])
       owner_dashboard_init))
     = [\<lparr>rv_row = ex_request ''pending'',
         rv_tenant = Some \<lparr>c_name = ''Tara'', c_email = ''tara@example.org'', c_phone = ''555-0101''\<rparr>,
         rv_room = Some \<lparr>s_address_line = ''12 Lake Road'', s_city = ''Pune'', s_rent = 9000\<rparr>\<rparr>]"
  by (simp add: fetchOwnerData_def select_single_def join_request_def embed_profile_def
      embed_room_def contact_of_def summary_of_def ex_defs)

text \<open>
  C2, amended. A successful \<open>fetchOwnerData\<close> returns every request of the table whose
  \<open>owner_id\<close> is the signed-in profile's id, whatever its status, and each entry carries
  the name, email and phone of the tenant's profile. The withholding is done by the
  rendering only: email and phone are shown exactly on the cards whose status is
  accepted.
\<close>

theorem contact_withheld_by_rendering:
  assumes fetched: "fetchOwnerData w st = (st', [])"
    and key: "distinct (map p_id (profiles w))"
  shows "\<exists>u pid. session w = Some u \<and>
           map p_id (filter (\<lambda>p. p_user_id p = uid u) (profiles w)) = [pid] \<and>
           map rv_row (od_requests st') = filter (\<lambda>q. q_owner_id q = pid) (requests w) \<and>
           (\<forall>v \<in> set (od_requests st'). \<forall>p \<in> set (profiles w).
              p_id p = q_tenant_id (rv_row v) \<longrightarrow>
                rv_tenant v = Some \<lparr>c_name = p_name p, c_email = p_email p, c_phone = p_phone p\<rparr> \<and>
                card_contact (render_request v) =
                  (if q_status (rv_row v) = ''accepted''
                   then Some (Some (p_email p), Some (p_phone p)) else None))"
proof -
  from fetchOwnerData_ok[OF fetched] obtain u pid where
    u: "session w = Some u" and
    pr: "map p_id (filter (\<lambda>p. p_user_id p = uid u) (profiles w)) = [pid]" and
    rq: "od_requests st' = map (join_request w) (filter (\<lambda>q. q_owner_id q = pid) (requests w))"
    by auto
  have rows: "map rv_row (od_requests st') = filter (\<lambda>q. q_owner_id q = pid) (requests w)"
    unfolding rq by (simp add: join_request_def comp_def)
  have each: "rv_tenant v = Some \<lparr>c_name = p_name p, c_email = p_email p, c_phone = p_phone p\<rparr> \<and>
              card_contact (render_request v) =
                (if q_status (rv_row v) = ''accepted''
                 then Some (Some (p_email p), Some (p_phone p)) else None)"
    if v: "v \<in> set (od_requests st')" and p: "p \<in> set (profiles w)"
      and t: "p_id p = q_tenant_id (rv_row v)" for v p
  proof -
    from v rq obtain q where q: "v = join_request w q"
      by auto
    have "find (\<lambda>y. p_id y = q_tenant_id q) (profiles w) = Some p"
      using find_distinct_key[OF key p] t q by (simp add: join_request_def)
    then have "rv_tenant v = Some \<lparr>c_name = p_name p, c_email = p_email p, c_phone = p_phone p\<rparr>"
      using q by (simp add: join_request_def embed_profile_def contact_of_def)
    then show ?thesis
      by (simp add: render_request_def)
  qed
  have every: "\<forall>v \<in> set (od_requests st'). \<forall>p \<in> set (profiles w).
              p_id p = q_tenant_id (rv_row v) \<longrightarrow>
                rv_tenant v = Some \<lparr>c_name = p_name p, c_email = p_email p, c_phone = p_phone p\<rparr> \<and>
                card_contact (render_request v) =
                  (if q_status (rv_row v) = ''accepted''
                   then Some (Some (p_email p), Some (p_phone p)) else None)"
    by (intro ballI impI) (rule each, assumption+)
  show ?thesis
  proof (intro exI conjI)
    show "session w = Some u"
      by (rule u)
    show "map p_id (filter (\<lambda>p. p_user_id p = uid u) (profiles w)) = [pid]"
      by (rule pr)
    show "map rv_row (od_requests st') = filter (\<lambda>q. q_owner_id q = pid) (requests w)"
      by (rule rows)
    show "\<forall>v \<in> set (od_requests st'). \<forall>p \<in> set (profiles w).
              p_id p = q_tenant_id (rv_row v) \<longrightarrow>
                rv_tenant v = Some \<lparr>c_name = p_name p, c_email = p_email p, c_phone = p_phone p\<rparr> \<and>
                card_contact (render_request v) =
                  (if q_status (rv_row v) = ''accepted''
                   then Some (Some (p_email p), Some (p_phone p)) else None)"
      by (rule every)
  qed
qed

theorem contact_withheld_by_rendering_witness:
  "fetchOwnerData (ex_backend ''u-owner'' [ex_room True] [ex_request ''rejected'', ex_request2 ''accepted''])
       owner_dashboard_init
     = (fst (fetchOwnerData (ex_backend ''u-owner'' [ex_room True]
               [ex_request ''rejected'', ex_request2 ''accepted'']) owner_dashboard_init), []) \<and>
   distinct (map p_id (profiles (ex_backend ''u-owner'' [ex_room True]
      [ex_request ''rejected'', ex_request2 ''accepted'']))) \<and>
   map rv_row (od_requests (fst (fetchOwnerData (ex_backend ''u-owner'' [ex_room True]
      [ex_request ''rejected'', ex_request2 ''accepted'']) owner_dashboard_init)))
     = [ex_request ''rejected'', ex_request2 ''accepted''] \<and>
   map rv_tenant (od_requests (fst (fetchOwnerData (ex_backend ''u-owner'' [ex_room True]
      [ex_request ''rejected'', ex_request2 ''accepted'']) owner_dashboard_init)))
     = [Some \<lparr>c_name = ''Tara'', c_email = ''tara@example.org'', c_phone = ''555-0101''\<rparr>,
        Some \<lparr>c_name = ''Tara'', c_email = ''tara@example.org'', c_phone = ''555-0101''\<rparr>] \<and>
   map card_contact (render_requests (fst (fetchOwnerData (ex_backend ''u-owner'' [ex_room True]
      [ex_request ''rejected'', ex_request2 ''accepted'']) owner_dashboard_init)))
     = [None, Some (Some ''tara@example.org'', Some ''555-0101'')]"
proof -
  let ?w = "ex_backend ''u-owner'' [ex_room True] [ex_request ''rejected'', ex_request2 ''accepted'']"
  let ?st = "fst (fetchOwnerData ?w owner_dashboard_init)"
  have h1: "fetchOwnerData ?w owner_dashboard_init = (?st, [])"
    by (simp add: fetchOwnerData_def select_single_def ex_defs)
  have h2: "distinct (map p_id (profiles ?w))"
    by (simp add: ex_defs)
  have s: "session ?w = Some (User ''u-owner'')"
    by (simp add: ex_backend_def)
  have f: "filter (\<lambda>q. q_owner_id q = ''p-owner'') (requests ?w)
             = [ex_request ''rejected'', ex_request2 ''accepted'']"
    by (simp add: ex_defs ex_request2_def)
  have pf: "map p_id (filter (\<lambda>p. p_user_id p = uid (User ''u-owner'')) (profiles ?w)) = [''p-owner'']"
    by (simp add: ex_defs)
  have tp: "ex_tenant \<in> set (profiles ?w)"
    by (simp add: ex_backend_def)
  from contact_withheld_by_rendering[OF h1 h2] s pf f have
    rows: "map rv_row (od_requests ?st) = [ex_request ''rejected'', ex_request2 ''accepted'']" and
    each: "\<forall>v \<in> set (od_requests ?st). \<forall>p \<in> set (profiles ?w).
              p_id p = q_tenant_id (rv_row v) \<longrightarrow>
                rv_tenant v = Some \<lparr>c_name = p_name p, c_email = p_email p, c_phone = p_phone p\<rparr> \<and>
                card_contact (render_request v) =
                  (if q_status (rv_row v) = ''accepted''
                   then Some (Some (p_email p), Some (p_phone p)) else None)"
    by auto
  from rows obtain v1 v2 where
    vs: "od_requests ?st = [v1, v2]" "rv_row v1 = ex_request ''rejected''"
      "rv_row v2 = ex_request2 ''accepted''"
    by (auto simp: map_eq_Cons_conv)
  have t1: "p_id ex_tenant = q_tenant_id (rv_row v1)" and t2: "p_id ex_tenant = q_tenant_id (rv_row v2)"
    using vs by (simp_all add: ex_defs ex_request2_def)
  have c1: "rv_tenant v1 = Some \<lparr>c_name = ''Tara'', c_email = ''tara@example.org'', c_phone = ''555-0101''\<rparr>"
    and d1: "card_contact (render_request v1) = None"
    using each vs tp t1 by (auto simp: ex_tenant_def ex_request_def)
  have c2: "rv_tenant v2 = Some \<lparr>c_name = ''Tara'', c_email = ''tara@example.org'', c_phone = ''555-0101''\<rparr>"
    and d2: "card_contact (render_request v2) = Some (Some ''tara@example.org'', Some ''555-0101'')"
    using each vs tp t2 by (auto simp: ex_tenant_def ex_request2_def)
  show ?thesis
    using h1 h2 rows vs c1 c2 d1 d2 by (simp add: render_requests_def)
qed

section \<open>Creating a request\<close>

text \<open>
  C4, as the specification states it: a request against a room with \<open>is_active = false\<close>
  fails and creates nothing. Neither \<open>fetchRoomDetails\<close> nor \<open>handleSendRequest\<close> reads
  \<open>is_active\<close>: the inactive room is fetched by its id and the request is stored.
\<close>

theorem create_on_inactive_room_counterexample:
  "r_is_active (ex_room False) = False \<and>
   fetchRoomDetails (ex_backend ''u-tenant'' [ex_room False] []) ''room-1'' room_page_init
     = (ex_room_page False [], []) \<and>
   handleSendRequest ex_request_defaults (ex_backend ''u-tenant'' [ex_room False] [])
       (ex_room_page False [])
     = (ex_backend ''u-tenant'' [ex_room False]
          [(ex_request ''pending'')\<lparr>q_message := ''I'm interested in this room''\<rparr>],
        ex_room_page False [],
        [Toast ''Success'' ''Request sent successfully!'' Default])"
  by (simp add: fetchRoomDetails_def handleSendRequest_def sendRequest_try_def select_single_def
      room_page_init_def embed_profile_def contact_of_def ex_defs)

text \<open>
  C4, amended. A request on a room fetched by its id is created whether or not the room
  is active, given a session, one linked profile and a store that reports no error.
  \<open>is_active\<close> is applied where rooms are listed for tenants: \<open>fetchRooms\<close> returns
  exactly the active rooms.
\<close>

theorem create_ignores_is_active:
  assumes fetched: "fetchRoomDetails w roomId st0 = (st, [])"
    and signed_in: "session w = Some u"
    and linked: "map p_id (filter (\<lambda>p. p_user_id p = uid u) (profiles w)) = [pid]"
    and up: "fault w Profiles = None" "fault w Requests = None"
  shows "(\<exists>r q. filter (\<lambda>r. r_id r = roomId) (rooms w) = [r] \<and>
            handleSendRequest dflt w st
              = (w\<lparr>requests := requests w @ [q]\<rparr>, st\<lparr>rp_message := [], rp_loading := False\<rparr>,
                 [Toast ''Success'' ''Request sent successfully!'' Default]) \<and>
            q_room_id q = r_id r \<and> q_tenant_id q = pid \<and> q_status q = ''pending'') \<and>
         td_rooms (fst (fetchRooms w td)) = filter (\<lambda>r. r_is_active r) (rooms w)"
proof -
  from fetchRoomDetails_ok[OF fetched] obtain r where
    nf: "fault w Rooms = None" and
    r: "filter (\<lambda>r. r_id r = roomId) (rooms w) = [r]" and
    st: "rp_room st = Some \<lparr>rd_row = r, rd_owner = embed_profile w (r_owner_id r)\<rparr>"
    by auto
  let ?q = "dflt\<lparr>q_room_id := r_id r, q_tenant_id := pid, q_owner_id := r_owner_id r,
               q_message := (if rp_message st = [] then ''I'm interested in this room''
                             else rp_message st),
               q_status := ''pending''\<rparr>"
  have "handleSendRequest dflt w st
          = (w\<lparr>requests := requests w @ [?q]\<rparr>, st\<lparr>rp_message := [], rp_loading := False\<rparr>,
             [Toast ''Success'' ''Request sent successfully!'' Default])"
    using st sendRequest_try_ok[OF signed_in linked up]
    by (simp add: handleSendRequest_def)
  moreover have "q_room_id ?q = r_id r \<and> q_tenant_id ?q = pid \<and> q_status ?q = ''pending''"
    by simp
  moreover have "td_rooms (fst (fetchRooms w td)) = filter (\<lambda>r. r_is_active r) (rooms w)"
    using nf by (simp add: fetchRooms_def)
  ultimately show ?thesis
    using r by blast
qed

theorem create_ignores_is_active_witness:
  "fetchRoomDetails (ex_backend ''u-tenant'' [ex_room False] []) ''room-1'' room_page_init
     = (ex_room_page False [], []) \<and>
   session (ex_backend ''u-tenant'' [ex_room False] []) = Some (User ''u-tenant'') \<and>
   map p_id (filter (\<lambda>p. p_user_id p = uid (User ''u-tenant''))
     (profiles (ex_backend ''u-tenant'' [ex_room False] []))) = [''p-tenant''] \<and>
   fault (ex_backend ''u-tenant'' [ex_room False] []) Profiles = None \<and>
   fault (ex_backend ''u-tenant'' [ex_room False] []) Requests = None \<and>
   snd (snd (handleSendRequest ex_request_defaults (ex_backend ''u-tenant'' [ex_room False] [])
       (ex_room_page False [])))
     = [Toast ''Success'' ''Request sent successfully!'' Default] \<and>
   td_rooms (fst (fetchRooms (ex_backend ''u-tenant'' [ex_room False] []) \<lparr>td_rooms = []\<rparr>)) = []"
proof -
  let ?w = "ex_backend ''u-tenant'' [ex_room False] []"
  have h1: "fetchRoomDetails ?w ''room-1'' room_page_init = (ex_room_page False [], [])"
    by (simp add: fetchRoomDetails_def select_single_def room_page_init_def embed_profile_def
        contact_of_def ex_defs)
  have h2: "session ?w = Some (User ''u-tenant'')"
    by (simp add: ex_backend_def)
  have h3: "map p_id (filter (\<lambda>p. p_user_id p = uid (User ''u-tenant'')) (profiles ?w))
              = [''p-tenant'']"
    by (simp add: ex_defs)
  have h4: "fault ?w Profiles = None" and h5: "fault ?w Requests = None"
    by (simp_all add: ex_backend_def)
  have rs: "filter (\<lambda>r. r_is_active r) (rooms ?w) = []"
    by (simp add: ex_defs)
  from create_ignores_is_active[OF h1 h2 h3 h4 h5, of ex_request_defaults "\<lparr>td_rooms = []\<rparr>"]
    h1 h2 h3 h4 h5 rs show ?thesis
    by auto
qed

text \<open>
  C5. Starting from an empty requests table, a tenant with one linked profile sends
  \<open>''hello''\<close> on a loaded room; the owner of that room then signs in and fetches the
  dashboard, the store reporting no error: the list holds exactly one request, pending,
  with message \<open>''hello''\<close>.
\<close>

theorem create_then_list_roundtrip:
  assumes empty: "requests w = []"
    and loaded: "rp_room st = Some rd"
    and msg: "rp_message st = ''hello''"
    and tenant: "session w = Some t"
      "map p_id (filter (\<lambda>p. p_user_id p = uid t) (profiles w)) = [tid]"
    and owner: "map p_id (filter (\<lambda>p. p_user_id p = uid ow) (profiles w)) = [r_owner_id (rd_row rd)]"
    and up: "fault w Profiles = None" "fault w Rooms = None" "fault w Requests = None"
  shows "\<exists>v. od_requests (fst (fetchOwnerData
                 ((fst (handleSendRequest dflt w st))\<lparr>session := Some ow\<rparr>) ost)) = [v] \<and>
             q_status (rv_row v) = ''pending'' \<and> q_message (rv_row v) = ''hello''"
proof -
  let ?q = "dflt\<lparr>q_room_id := r_id (rd_row rd), q_tenant_id := tid,
               q_owner_id := r_owner_id (rd_row rd), q_message := ''hello'',
               q_status := ''pending''\<rparr>"
  let ?w1 = "w\<lparr>requests := [?q]\<rparr>"
  have sent: "fst (handleSendRequest dflt w st) = ?w1"
    using loaded msg empty sendRequest_try_ok[OF tenant up(1) up(3), of dflt rd "''hello''"]
    by (simp add: handleSendRequest_def)
  have "od_requests (fst (fetchOwnerData (?w1\<lparr>session := Some ow\<rparr>) ost))
          = [join_request (?w1\<lparr>session := Some ow\<rparr>) ?q]"
    using owner up by (simp add: fetchOwnerData_def select_single_def)
  then show ?thesis
    unfolding sent by (simp add: join_request_def)
qed

theorem create_then_list_roundtrip_witness:
  "requests (ex_backend ''u-tenant'' [ex_room True] []) = [] \<and>
   rp_room (ex_room_page True ''hello'')
     = Some \<lparr>rd_row = ex_room True, rd_owner = Some (contact_of ex_owner)\<rparr> \<and>
   rp_message (ex_room_page True ''hello'') = ''hello'' \<and>
   session (ex_backend ''u-tenant'' [ex_room True] []) = Some (User ''u-tenant'') \<and>
   map p_id (filter (\<lambda>p. p_user_id p = uid (User ''u-tenant''))
     (profiles (ex_backend ''u-tenant'' [ex_room True] []))) = [''p-tenant''] \<and>
   map p_id (filter (\<lambda>p. p_user_id p = uid (User ''u-owner''))
     (profiles (ex_backend ''u-tenant'' [ex_room True] []))) = [r_owner_id (ex_room True)] \<and>
   map (\<lambda>v. (q_status (rv_row v), q_message (rv_row v)))
     (od_requests (fst (fetchOwnerData
        ((fst (handleSendRequest ex_request_defaults (ex_backend ''u-tenant'' [ex_room True] [])
                 (ex_room_page True ''hello'')))\<lparr>session := Some (User ''u-owner'')\<rparr>)
        owner_dashboard_init)))
     = [(''pending'', ''hello'')]"
proof -
  let ?w = "ex_backend ''u-tenant'' [ex_room True] []"
  let ?rd = "\<lparr>rd_row = ex_room True, rd_owner = Some (contact_of ex_owner)\<rparr>"
  have h1: "requests ?w = []"
    by (simp add: ex_backend_def)
  have h2: "rp_room (ex_room_page True ''hello'') = Some ?rd"
    by (simp add: ex_room_page_def)
  have h3: "rp_message (ex_room_page True ''hello'') = ''hello''"
    by (simp add: ex_room_page_def)
  have h4: "session ?w = Some (User ''u-tenant'')"
    by (simp add: ex_backend_def)
  have h5: "map p_id (filter (\<lambda>p. p_user_id p = uid (User ''u-tenant'')) (profiles ?w))
              = [''p-tenant'']"
    by (simp add: ex_defs)
  have h6: "map p_id (filter (\<lambda>p. p_user_id p = uid (User ''u-owner'')) (profiles ?w))
              = [r_owner_id (rd_row ?rd)]"
    by (simp add: ex_defs)
  have h6': "map p_id (filter (\<lambda>p. p_user_id p = uid (User ''u-owner'')) (profiles ?w))
              = [r_owner_id (ex_room True)]"
    by (simp add: ex_defs)
  have h7: "fault ?w Profiles = None" and h8: "fault ?w Rooms = None"
    and h9: "fault ?w Requests = None"
    by (simp_all add: ex_backend_def)
  from create_then_list_roundtrip[OF h1 h2 h3 h4 h5 h6 h7 h8 h9,
      of ex_request_defaults owner_dashboard_init]
    h1 h2 h3 h4 h5 h6' show ?thesis
    by auto
qed




text \<open>
  C7. Once the Send Request button is there (the room is loaded): with no session the
  call fails with the error \<open>Not authenticated\<close>, and with a session whose user has no
  profile row it fails with \<open>Profile not found\<close>; the error is shown as a toast and the
  backend is left as it was, so no request is created.
\<close>

theorem create_without_session_or_profile:
  assumes rendered: "send_button_rendered st"
  shows "(session w = None \<longrightarrow>
            (\<forall>rd. sendRequest_try dflt w rd (rp_message st) = Inl (Error ''Not authenticated'')) \<and>
            handleSendRequest dflt w st
              = (w, st\<lparr>rp_loading := False\<rparr>, [Toast ''Error'' ''Not authenticated'' Destructive])) \<and>
         (\<forall>u. session w = Some u \<and> (\<forall>p \<in> set (profiles w). p_user_id p \<noteq> uid u) \<longrightarrow>
            (\<forall>rd. sendRequest_try dflt w rd (rp_message st) = Inl (Error ''Profile not found'')) \<and>
            handleSendRequest dflt w st
              = (w, st\<lparr>rp_loading := False\<rparr>, [Toast ''Error'' ''Profile not found'' Destructive]))"
proof -
  from rendered obtain room where room: "rp_room st = Some room"
    by (auto simp: send_button_rendered_def)
  have none: "sendRequest_try dflt w rd m = Inl (Error ''Not authenticated'')"
    if "session w = None" for rd m
    using that by (simp add: sendRequest_try_def)
  have nop: "sendRequest_try dflt w rd m = Inl (Error ''Profile not found'')"
    if "session w = Some u" "\<forall>p \<in> set (profiles w). p_user_id p \<noteq> uid u" for u rd m
  proof -
    have "filter (\<lambda>p. p_user_id p = uid u) (profiles w) = []"
      using that(2) by (simp add: filter_empty_conv)
    then show ?thesis
      using that(1) by (simp add: sendRequest_try_def select_single_def split: option.splits)
  qed
  show ?thesis
    using room none nop by (auto simp: handleSendRequest_def)
qed

theorem create_without_session_or_profile_witness:
  "send_button_rendered (ex_room_page True ''hello'') \<and>
   session ex_signed_out = None \<and>
   handleSendRequest ex_request_defaults ex_signed_out (ex_room_page True ''hello'')
     = (ex_signed_out, (ex_room_page True ''hello'')\<lparr>rp_loading := False\<rparr>,
        [Toast ''Error'' ''Not authenticated'' Destructive]) \<and>
   session (ex_backend ''u-ghost'' [ex_room True] []) = Some (User ''u-ghost'') \<and>
   ''u-ghost'' \<notin> set (map p_user_id (profiles (ex_backend ''u-ghost'' [ex_room True] []))) \<and>
   handleSendRequest ex_request_defaults (ex_backend ''u-ghost'' [ex_room True] [])
       (ex_room_page True ''hello'')
     = (ex_backend ''u-ghost'' [ex_room True] [], (ex_room_page True ''hello'')\<lparr>rp_loading := False\<rparr>,
        [Toast ''Error'' ''Profile not found'' Destructive])"
proof -
  have h1: "send_button_rendered (ex_room_page True ''hello'')"
    by (simp add: send_button_rendered_def ex_room_page_def)
  have h2: "session ex_signed_out = None"
    by (simp add: ex_signed_out_def)
  have h3: "session (ex_backend ''u-ghost'' [ex_room True] []) = Some (User ''u-ghost'')"
    by (simp add: ex_backend_def)
  have h4: "\<forall>p \<in> set (profiles (ex_backend ''u-ghost'' [ex_room True] [])).
              p_user_id p \<noteq> uid (User ''u-ghost'')"
    by (simp add: ex_defs)
  from create_without_session_or_profile[OF h1, of ex_signed_out ex_request_defaults]
    create_without_session_or_profile[OF h1, of "ex_backend ''u-ghost'' [ex_room True] []"
      ex_request_defaults]
    h1 h2 h3 h4 show ?thesis
    by (auto simp: ex_defs)
qed




text \<open>
  C9. A successful call stores one request whose message is the text of the message box
  as it is, and \<open>I'm interested in this room\<close> when the box is empty.
\<close>

theorem stored_message_default:
  assumes success: "handleSendRequest dflt w st
                      = (w', st', [Toast ''Success'' ''Request sent successfully!'' Default])"
  shows "\<exists>q. requests w' = requests w @ [q] \<and>
             (rp_message st = [] \<longrightarrow> q_message q = ''I'm interested in this room'') \<and>
             (rp_message st \<noteq> [] \<longrightarrow> q_message q = rp_message st)"
proof -
  from handleSendRequest_success[OF success] obtain rd where
    "sendRequest_try dflt w rd (rp_message st) = Inr w'"
    by auto
  from sendRequest_try_Inr[OF this] show ?thesis
    by auto
qed

theorem stored_message_default_witness:
  "handleSendRequest ex_request_defaults (ex_backend ''u-tenant'' [ex_room True] [])
       (ex_room_page True [])
     = (ex_backend ''u-tenant'' [ex_room True]
          [(ex_request ''pending'')\<lparr>q_message := ''I'm interested in this room''\<rparr>],
        ex_room_page True [], [Toast ''Success'' ''Request sent successfully!'' Default]) \<and>
   handleSendRequest ex_request_defaults (ex_backend ''u-tenant'' [ex_room True] [])
       (ex_room_page True ''hello'')
     = (ex_backend ''u-tenant'' [ex_room True] [ex_request ''pending''],
        ex_room_page True [], [Toast ''Success'' ''Request sent successfully!'' Default]) \<and>
   (\<exists>q. requests (ex_backend ''u-tenant'' [ex_room True]
            [(ex_request ''pending'')\<lparr>q_message := ''I'm interested in this room''\<rparr>])
          = requests (ex_backend ''u-tenant'' [ex_room True] []) @ [q] \<and>
        q_message q = ''I'm interested in this room'') \<and>
   (\<exists>q. requests (ex_backend ''u-tenant'' [ex_room True] [ex_request ''pending''])
          = requests (ex_backend ''u-tenant'' [ex_room True] []) @ [q] \<and>
        q_message q = ''hello'')"
proof -
  let ?w = "ex_backend ''u-tenant'' [ex_room True] []"
  have h1: "handleSendRequest ex_request_defaults ?w (ex_room_page True [])
     = (ex_backend ''u-tenant'' [ex_room True]
          [(ex_request ''pending'')\<lparr>q_message := ''I'm interested in this room''\<rparr>],
        ex_room_page True [], [Toast ''Success'' ''Request sent successfully!'' Default])"
    by (simp add: handleSendRequest_def sendRequest_try_def select_single_def ex_defs)
  have h2: "handleSendRequest ex_request_defaults ?w (ex_room_page True ''hello'')
     = (ex_backend ''u-tenant'' [ex_room True] [ex_request ''pending''],
        ex_room_page True [], [Toast ''Success'' ''Request sent successfully!'' Default])"
    by (simp add: handleSendRequest_def sendRequest_try_def select_single_def ex_defs)
  have m1: "rp_message (ex_room_page True []) = []"
    and m2: "rp_message (ex_room_page True ''hello'') = ''hello''"
    by (simp_all add: ex_room_page_def)
  from stored_message_default[OF h1] stored_message_default[OF h2] h1 h2 m1 m2 show ?thesis
    by simp
qed

section \<open>Adding a room\<close>

text \<open>
  C10. A successful \<open>handleSubmit\<close> appends one room to the rooms table, with
  \<open>is_active = true\<close>; the tenants' listing query on the resulting table returns it.
\<close>

theorem added_room_is_active:
  assumes success: "handleSubmit parseFloat dflt w st
                      = (w', st', [Toast ''Success'' ''Room added successfully!'' Default,
                                   Call_onSuccess])"
  shows "\<exists>r. rooms w' = rooms w @ [r] \<and> r_is_active r \<and>
             r \<in> set (td_rooms (fst (fetchRooms w' td)))"
proof -
  from success have "submit_try parseFloat dflt w st = Inr w'"
    by (auto simp: handleSubmit_def split: sum.splits)
  then obtain r where "fault w Rooms = None" "w' = w\<lparr>rooms := rooms w @ [r]\<rparr>" "r_is_active r"
    by (auto simp: submit_try_def select_single_def split: option.splits sum.splits)
  then show ?thesis
    by (auto simp: fetchRooms_def)
qed

theorem added_room_is_active_witness:
  "snd (snd (handleSubmit (\<lambda>s. 9000) ex_room_defaults (ex_backend ''u-owner'' [] [])
       add_room_form_init))
     = [Toast ''Success'' ''Room added successfully!'' Default, Call_onSuccess] \<and>
   map r_is_active (rooms (fst (handleSubmit (\<lambda>s. 9000) ex_room_defaults
       (ex_backend ''u-owner'' [] []) add_room_form_init))) = [True] \<and>
   td_rooms (fst (fetchRooms (fst (handleSubmit (\<lambda>s. 9000) ex_room_defaults
       (ex_backend ''u-owner'' [] []) add_room_form_init)) \<lparr>td_rooms = []\<rparr>))
     = rooms (fst (handleSubmit (\<lambda>s. 9000) ex_room_defaults
       (ex_backend ''u-owner'' [] []) add_room_form_init))"
proof -
  let ?r = "handleSubmit (\<lambda>s. 9000) ex_room_defaults (ex_backend ''u-owner'' [] [])
       add_room_form_init"
  have h: "?r = (fst ?r, fst (snd ?r),
                 [Toast ''Success'' ''Room added successfully!'' Default, Call_onSuccess])"
    by (simp add: handleSubmit_def submit_try_def select_single_def ex_defs)
  have e: "rooms (ex_backend ''u-owner'' [] []) = []"
    by (simp add: ex_backend_def)
  have f: "fault (fst ?r) Rooms = None"
    by (simp add: handleSubmit_def submit_try_def select_single_def ex_defs)
  from added_room_is_active[OF h, of "\<lparr>td_rooms = []\<rparr>"] obtain r where
    r: "rooms (fst ?r) = [r]" "r_is_active r"
    using e by auto
  have "snd (snd ?r) = [Toast ''Success'' ''Room added successfully!'' Default, Call_onSuccess]"
    using h by (metis snd_conv)
  moreover have "map r_is_active (rooms (fst ?r)) = [True]"
    using r by simp
  moreover have "td_rooms (fst (fetchRooms (fst ?r) \<lparr>td_rooms = []\<rparr>)) = rooms (fst ?r)"
    using f r by (simp add: fetchRooms_def)
  ultimately show ?thesis
    by blast
qed

end
